theory Spec2Isabelle
  imports Main "HOL-Library.Char_ord" "HOL-Library.List_Lexorder" "HOL-Library.Product_Lexorder"
    "HOL-Library.Sublist"
begin

section \<open>Values, records and the outside world\<close>

text \<open>
  The server is an Express application (\<^verbatim>\<open>src/server.js\<close>). The file holds two
  versions of it: lines 1--186 (disk storage for uploads, no \<^verbatim>\<open>/upload\<close> route) and
  lines 188--412 (memory storage with a file filter and a size limit, plus \<^verbatim>\<open>/upload\<close>).
  The routes they share are the same text, so each shared route is modelled once; the two
  upload configurations are modelled side by side.

  A thrown JavaScript \<^verbatim>\<open>Error\<close> is a value; only its \<^verbatim>\<open>message\<close> can reach a response.
  An awaited call that may reject returns \<open>js_error + 'a\<close>, with \<open>Inl\<close> the rejection.
  A call into a package (Mongoose, axios, multer, Twilio, the feed parser) is modelled by
  what the package documents that it hands back to the caller; what the external service
  behind it answers is a field of the world the request runs in.
\<close>

datatype js_error = JsError (message: string)

text \<open>The Mongoose schemas (lines 220--252). A field declared without \<^verbatim>\<open>required\<close> may be absent.\<close>

record alert =
  alert_title :: string
  alert_message :: string
  alert_time :: nat

text \<open>
  The \<^verbatim>\<open>media\<close> string of a report: \<open>UploadsPath t n\<close> is \<^verbatim>\<open>/uploads/<t>-<n>\<close> (line 118),
  \<open>DataUri m c\<close> is \<^verbatim>\<open>data:<m>;base64,<base64 of c>\<close> (line 324).
\<close>

datatype media = UploadsPath nat string | DataUri string string

record report =
  report_description :: string
  report_location :: "string option"
  report_media :: "media option"

record resource =
  resource_name :: string
  resource_type :: "string option"
  resource_address :: "string option"
  resource_contact :: "string option"
  resource_city :: "string option"

record checkin =
  checkin_message :: string
  checkin_phone :: string

record file_doc =
  file_originalName :: string
  file_size :: nat
  file_mimetype :: string
  file_uploadDate :: nat

text \<open>
  Everything a handler does to the outside is logged as an event, in the order it happens:
  a request to the geocoder, a read or a write of a collection of the store, a fetch of the
  news feed, an SMS handed to the gateway, a file written under \<^verbatim>\<open>./uploads/\<close>.
\<close>

datatype event =
    NominatimSearch string
  | StoreFind string
  | StoreSave string
  | FeedFetch
  | SmsCreate "string option" string string
  | DiskWrite nat string

text \<open>The request methods the routes tell apart; \<open>OTHER\<close> is any other method, by name.\<close>

datatype http_method = GET | POST | OTHER string

text \<open>
  A bearer token as \<^verbatim>\<open>jsonwebtoken\<close> sees it: a string that decodes to a payload signed
  with some secret, or a string that does not decode. Times of a token are in seconds.
\<close>

datatype token = Signed "string option" nat nat string | Malformed string

text \<open>A response is a status code and a body; the bodies are the JSON values the routes send.\<close>

record news_item =
  news_title :: string
  news_content :: string
  news_source :: string
  news_time :: string

datatype body =
    ErrorJson string
  | TokenJson token
  | AlertsJson "alert list"
  | AlertJson alert
  | ReportJson report
  | ResourcesJson "resource list"
  | NewsJson "news_item list"
  | CheckinJson checkin
  | MessageJson string
  | PlainText string
  | DefaultNotFound

record response =
  status :: nat
  body :: body

definition json :: "nat \<Rightarrow> body \<Rightarrow> response" where
  "json code b = \<lparr>status = code, body = b\<rparr>"

text \<open>
  The state that outlives a request: the collections of the store, the limiter's window per
  client (start of the window, requests counted in it), the cache's entries (stored
  response, time of storage), and the log of events.
\<close>

type_synonym cache_key = "http_method \<times> string \<times> (string \<times> string) list"

record server =
  alerts :: "alert list"
  reports :: "report list"
  resources :: "resource list"
  checkins :: "checkin list"
  files :: "file_doc list"
  rate_windows :: "string \<Rightarrow> (nat \<times> nat) option"
  cache_entries :: "cache_key \<Rightarrow> (response \<times> nat) option"
  trace :: "event list"

record feed_item =
  item_title :: string
  item_contentSnippet :: string
  item_pubDate :: string

text \<open>
  What the outside world does during one request: the clock (milliseconds), the environment
  variables the code reads, and the behaviour of each collaborator. \<open>store_fault\<close> is the
  error every store operation rejects with while the store is unreachable; \<open>nominatim\<close>
  answers a search text with the array of matches or rejects; \<open>regexp_i\<close> is the regular
  expression engine: \<^verbatim>\<open>new RegExp(p, 'i')\<close> throws or yields a test on strings.
\<close>

record world =
  now :: nat
  env_JWT_SECRET :: "string option"
  env_TWILIO_SID :: "string option"
  env_TWILIO_PHONE :: "string option"
  store_fault :: "js_error option"
  nominatim :: "string \<Rightarrow> js_error + string list"
  regexp_i :: "string \<Rightarrow> js_error + (string \<Rightarrow> bool)"
  rss_feed :: "js_error + feed_item list"
  twilio_fault :: "js_error option"

text \<open>
  A request as the routes read it: the query parameters (each name once), the
  \<^verbatim>\<open>Authorization\<close> header split at spaces, the fields of the parsed body, and the file
  part of a multipart body as the client declares it.
\<close>

record file_part =
  fieldname :: string
  originalname :: string
  mimetype :: string
  size_bytes :: nat
  content :: string

record request =
  req_method :: http_method
  path :: string
  query :: "(string \<times> string) list"
  ip :: string
  authorization :: "token list option"
  body_username :: "string option"
  body_password :: "string option"
  body_title :: "string option"
  body_message :: "string option"
  body_description :: "string option"
  body_location :: "string option"
  body_phone :: "string option"
  file_part :: "file_part option"

section \<open>Primitives\<close>

definition emit :: "event \<Rightarrow> server \<Rightarrow> server" where
  "emit e s = s\<lparr>trace := trace s @ [e]\<rparr>"

text \<open>JavaScript truthiness of a value that is a string or \<^verbatim>\<open>undefined\<close>.\<close>

fun truthy :: "string option \<Rightarrow> bool" where
  "truthy None = False"
| "truthy (Some v) = (v \<noteq> [])"

text \<open>\<^verbatim>\<open>axios.get\<close> on the Nominatim search URL for a search text: one request, then its answer.\<close>

definition axios_get_nominatim :: "world \<Rightarrow> string \<Rightarrow> server \<Rightarrow> (js_error + string list) \<times> server" where
  "axios_get_nominatim w q s = (nominatim w q, emit (NominatimSearch q) s)"

text \<open>\<^verbatim>\<open>Resource.find(filter).limit(n)\<close>: the first \<open>n\<close> matching documents, in the store's order.\<close>

definition Resource_find :: "world \<Rightarrow> (resource \<Rightarrow> bool) \<Rightarrow> nat \<Rightarrow> server \<Rightarrow> (js_error + resource list) \<times> server" where
  "Resource_find w p n s =
     (case store_fault w of
        Some err \<Rightarrow> Inl err
      | None \<Rightarrow> Inr (take n (filter p (resources s))),
      emit (StoreFind ''Resource'') s)"

text \<open>The filter \<^verbatim>\<open>{ city: re }\<close>: a document without the field does not match.\<close>

definition city_matches :: "(string \<Rightarrow> bool) \<Rightarrow> resource \<Rightarrow> bool" where
  "city_matches re r = (case resource_city r of None \<Rightarrow> False | Some c \<Rightarrow> re c)"

section \<open>GET /api/resources (lines 333--349)\<close>

definition get_resources :: "world \<Rightarrow> request \<Rightarrow> server \<Rightarrow> response \<times> server" where
  "get_resources w req s =
     (let city = map_of (query req) ''city'' in
      if \<not> truthy city then
        (case Resource_find w (\<lambda>r. True) 100 s of
           (Inr rs, s1) \<Rightarrow> (json 200 (ResourcesJson rs), s1)
         | (Inl err, s1) \<Rightarrow> (json 500 (ErrorJson ''Server error''), s1))
      else
        (case axios_get_nominatim w (the city @ '', India'') s of
           (Inl err, s1) \<Rightarrow> (json 500 (ErrorJson ''Server error''), s1)
         | (Inr data, s1) \<Rightarrow>
             if length data = 0 then (json 404 (ErrorJson ''City not found''), s1)
             else
               (case regexp_i w (the city) of
                  Inl err \<Rightarrow> (json 500 (ErrorJson ''Server error''), s1)
                | Inr re \<Rightarrow>
                    (case Resource_find w (city_matches re) 50 s1 of
                       (Inr rs, s2) \<Rightarrow> (json 200 (ResourcesJson rs), s2)
                     | (Inl err, s2) \<Rightarrow> (json 500 (ErrorJson ''Server error''), s2)))))"

section \<open>Token service (lines 279--298)\<close>

text \<open>\<^verbatim>\<open>process.env.JWT_SECRET || 'safebharatsecret'\<close>\<close>

definition signing_secret :: "world \<Rightarrow> string" where
  "signing_secret w = (if truthy (env_JWT_SECRET w) then the (env_JWT_SECRET w) else ''safebharatsecret'')"

text \<open>
  Modelled from the spec: \<^verbatim>\<open>jwt.sign\<close> and \<^verbatim>\<open>jwt.verify\<close> belong to the package
  \<^verbatim>\<open>jsonwebtoken\<close>, which is not under \<^verbatim>\<open>src/\<close>. The spec (section 3): a credential is
  \<open>{subject, issuedAt, expiresAt}\<close>, valid only while \<open>now < expiresAt\<close> and its signature
  matches the active signing secret. \<open>t\<close> is the clock in seconds.
\<close>

definition jwt_sign :: "string option \<Rightarrow> string \<Rightarrow> nat \<Rightarrow> nat \<Rightarrow> token" where
  "jwt_sign username secret expiresIn t = Signed username t (t + expiresIn) secret"

fun jwt_verify :: "token \<Rightarrow> string \<Rightarrow> nat \<Rightarrow> js_error + string option" where
  "jwt_verify (Malformed x) secret t = Inl (JsError ''jwt malformed'')"
| "jwt_verify (Signed username iat exp signed_with) secret t =
     (if signed_with \<noteq> secret then Inl (JsError ''invalid signature'')
      else if \<not> t < exp then Inl (JsError ''jwt expired'')
      else Inr username)"

definition seconds :: "world \<Rightarrow> nat" where
  "seconds w = now w div 1000"

text \<open>\<^verbatim>\<open>req.headers['authorization']?.split(' ')[1]\<close>, and \<^verbatim>\<open>!token\<close>.\<close>

definition bearer :: "request \<Rightarrow> token option" where
  "bearer req =
     (case authorization req of
        None \<Rightarrow> None
      | Some parts \<Rightarrow> if 1 < length parts then Some (parts ! 1) else None)"

fun no_token :: "token option \<Rightarrow> bool" where
  "no_token None = True"
| "no_token (Some (Malformed x)) = (x = [])"
| "no_token (Some (Signed username iat exp signed_with)) = False"

text \<open>The middleware answers itself (\<open>Inl\<close>) or calls \<^verbatim>\<open>next()\<close> with \<^verbatim>\<open>req.user\<close> set (\<open>Inr\<close>).\<close>

definition authenticateToken :: "world \<Rightarrow> request \<Rightarrow> response + string option" where
  "authenticateToken w req =
     (if no_token (bearer req) then Inl (json 401 (ErrorJson ''Token required''))
      else
        (case jwt_verify (the (bearer req)) (signing_secret w) (seconds w) of
           Inl err \<Rightarrow> Inl (json 403 (ErrorJson ''Invalid token''))
         | Inr user \<Rightarrow> Inr user))"

definition post_login :: "world \<Rightarrow> request \<Rightarrow> server \<Rightarrow> response \<times> server" where
  "post_login w req s =
     (if body_username req = Some ''user'' \<and> body_password req = Some ''pass'' then
        (json 200 (TokenJson (jwt_sign (body_username req) (signing_secret w) 3600 (seconds w))), s)
      else (json 401 (ErrorJson ''Invalid credentials''), s))"

section \<open>Alerts and news (lines 301--319, 351--364)\<close>

text \<open>
  \<^verbatim>\<open>doc.save()\<close>: Mongoose validates first (a \<^verbatim>\<open>required\<close> string must be present and not
  empty) and rejects without reaching the store; otherwise the store inserts or rejects.
\<close>

definition Alert_save :: "world \<Rightarrow> string option \<Rightarrow> string option \<Rightarrow> server \<Rightarrow> (js_error + alert) \<times> server" where
  "Alert_save w title msg s =
     (if \<not> (truthy title \<and> truthy msg) then (Inl (JsError ''Alert validation failed''), s)
      else
        (case store_fault w of
           Some err \<Rightarrow> (Inl err, emit (StoreSave ''Alert'') s)
         | None \<Rightarrow>
             (let doc = \<lparr>alert_title = the title, alert_message = the msg, alert_time = now w\<rparr>
              in (Inr doc, emit (StoreSave ''Alert'') (s\<lparr>alerts := alerts s @ [doc]\<rparr>)))))"

text \<open>\<^verbatim>\<open>Alert.find().sort({ time: -1 }).limit(50)\<close>\<close>

definition Alert_find_newest :: "world \<Rightarrow> nat \<Rightarrow> server \<Rightarrow> (js_error + alert list) \<times> server" where
  "Alert_find_newest w n s =
     (case store_fault w of
        Some err \<Rightarrow> Inl err
      | None \<Rightarrow> Inr (take n (sort_key (\<lambda>a. - int (alert_time a)) (alerts s))),
      emit (StoreFind ''Alert'') s)"

definition get_alerts :: "world \<Rightarrow> request \<Rightarrow> server \<Rightarrow> response \<times> server" where
  "get_alerts w req s =
     (case Alert_find_newest w 50 s of
        (Inr docs, s1) \<Rightarrow> (json 200 (AlertsJson docs), s1)
      | (Inl err, s1) \<Rightarrow> (json 500 (ErrorJson ''Server error''), s1))"

definition post_alerts :: "world \<Rightarrow> request \<Rightarrow> server \<Rightarrow> response \<times> server" where
  "post_alerts w req s =
     (case Alert_save w (body_title req) (body_message req) s of
        (Inr doc, s1) \<Rightarrow> (json 201 (AlertJson doc), s1)
      | (Inl err, s1) \<Rightarrow> (json 500 (ErrorJson ''Server error''), s1))"

definition news_of :: "feed_item \<Rightarrow> news_item" where
  "news_of item = \<lparr>news_title = item_title item, news_content = item_contentSnippet item,
     news_source = ''PIB India'', news_time = item_pubDate item\<rparr>"

definition get_news :: "world \<Rightarrow> request \<Rightarrow> server \<Rightarrow> response \<times> server" where
  "get_news w req s =
     (case rss_feed w of
        Inr items \<Rightarrow> (json 200 (NewsJson (map news_of (take 10 items))), emit FeedFetch s)
      | Inl err \<Rightarrow> (json 500 (ErrorJson ''Error fetching news''), emit FeedFetch s))"

section \<open>Check-in notifier (lines 274--276, 366--382)\<close>

definition Checkin_save :: "world \<Rightarrow> string option \<Rightarrow> string option \<Rightarrow> server \<Rightarrow> (js_error + checkin) \<times> server" where
  "Checkin_save w msg phone s =
     (if \<not> (truthy msg \<and> truthy phone) then (Inl (JsError ''Checkin validation failed''), s)
      else
        (case store_fault w of
           Some err \<Rightarrow> (Inl err, emit (StoreSave ''Checkin'') s)
         | None \<Rightarrow>
             (let doc = \<lparr>checkin_message = the msg, checkin_phone = the phone\<rparr>
              in (Inr doc, emit (StoreSave ''Checkin'') (s\<lparr>checkins := checkins s @ [doc]\<rparr>)))))"

text \<open>\<^verbatim>\<open>twilioClient\<close> is a client when \<^verbatim>\<open>process.env.TWILIO_SID\<close> is set, \<^verbatim>\<open>null\<close> otherwise.\<close>

definition twilioClient :: "world \<Rightarrow> bool" where
  "twilioClient w = truthy (env_TWILIO_SID w)"

text \<open>\<^verbatim>\<open>twilioClient.messages.create({ body, from, to })\<close>: the gateway is asked, then answers.\<close>

definition messages_create :: "world \<Rightarrow> string \<Rightarrow> string option \<Rightarrow> string \<Rightarrow> server \<Rightarrow> (js_error + unit) \<times> server" where
  "messages_create w text sender to s =
     (case twilio_fault w of Some err \<Rightarrow> Inl err | None \<Rightarrow> Inr (),
      emit (SmsCreate sender to text) s)"

definition post_checkins :: "world \<Rightarrow> request \<Rightarrow> server \<Rightarrow> response \<times> server" where
  "post_checkins w req s =
     (case Checkin_save w (body_message req) (body_phone req) s of
        (Inl err, s1) \<Rightarrow> (json 500 (ErrorJson ''Server error''), s1)
      | (Inr doc, s1) \<Rightarrow>
          if twilioClient w then
            (case messages_create w (''Safe Bharat Check-In: '' @ the (body_message req)) (env_TWILIO_PHONE w)
                    (the (body_phone req)) s1 of
               (Inl err, s2) \<Rightarrow> (json 500 (ErrorJson ''Server error''), s2)
             | (Inr u, s2) \<Rightarrow> (json 201 (CheckinJson doc), s2))
          else (json 201 (CheckinJson doc), s1))"

section \<open>Uploads (lines 61--67 and 261--271, 321--331, 385--404)\<close>

text \<open>
  A \<^verbatim>\<open>multer\<close> configuration: whether accepted files are written to disk, the size limit
  when one is set, and the file filter when one is set. The filter answers through its
  callback: an error (\<open>Inl\<close>), or whether to keep the file.
\<close>

record multer_config =
  disk_storage :: bool
  fileSize :: "nat option"
  fileFilter :: "(file_part \<Rightarrow> js_error + bool) option"

text \<open>Lines 61--67: disk storage under \<^verbatim>\<open>./uploads/\<close>, no limit, no filter.\<close>

definition upload_disk :: multer_config where
  "upload_disk = \<lparr>disk_storage = True, fileSize = None, fileFilter = None\<rparr>"

text \<open>Lines 261--271: memory storage, 5 MiB, images and PDF only.\<close>

definition startsWith :: "string \<Rightarrow> string \<Rightarrow> bool" where
  "startsWith str p = (take (length p) str = p)"

definition upload_fileFilter :: "file_part \<Rightarrow> js_error + bool" where
  "upload_fileFilter file =
     (if startsWith (mimetype file) ''image/'' \<or> mimetype file = ''application/pdf'' then Inr True
      else Inl (JsError ''Invalid file type''))"

definition upload :: multer_config where
  "upload = \<lparr>disk_storage = False, fileSize = Some (5 * 1024 * 1024), fileFilter = Some upload_fileFilter\<rparr>"

text \<open>
  \<^verbatim>\<open>upload.single(field)\<close>: a file under another field name is an error; then the filter
  decides; then the storage takes the file, and a file longer than the limit is an error.
  With disk storage the file is written as \<^verbatim>\<open><Date.now()>-<originalname>\<close>. The result is
  \<^verbatim>\<open>req.file\<close>, or the error handed to \<^verbatim>\<open>next\<close>.
\<close>

definition single :: "multer_config \<Rightarrow> string \<Rightarrow> world \<Rightarrow> request \<Rightarrow> server \<Rightarrow> (js_error + file_part option) \<times> server" where
  "single cfg field w req s =
     (case file_part req of
        None \<Rightarrow> (Inr None, s)
      | Some file \<Rightarrow>
          if fieldname file \<noteq> field then (Inl (JsError ''Unexpected field''), s)
          else
            (case (case fileFilter cfg of None \<Rightarrow> Inr True | Some f \<Rightarrow> f file) of
               Inl err \<Rightarrow> (Inl err, s)
             | Inr False \<Rightarrow> (Inr None, s)
             | Inr True \<Rightarrow>
                 if (case fileSize cfg of None \<Rightarrow> False | Some limit \<Rightarrow> limit < size_bytes file)
                 then (Inl (JsError ''File too large''), s)
                 else if disk_storage cfg then (Inr (Some file), emit (DiskWrite (now w) (originalname file)) s)
                 else (Inr (Some file), s)))"

definition Report_save :: "world \<Rightarrow> string option \<Rightarrow> string option \<Rightarrow> media option \<Rightarrow> server \<Rightarrow> (js_error + report) \<times> server" where
  "Report_save w description location med s =
     (if \<not> truthy description then (Inl (JsError ''Report validation failed''), s)
      else
        (case store_fault w of
           Some err \<Rightarrow> (Inl err, emit (StoreSave ''Report'') s)
         | None \<Rightarrow>
             (let doc = \<lparr>report_description = the description, report_location = location, report_media = med\<rparr>
              in (Inr doc, emit (StoreSave ''Report'') (s\<lparr>reports := reports s @ [doc]\<rparr>)))))"

text \<open>The handler of \<^verbatim>\<open>POST /api/reports\<close>; \<open>med\<close> is how the version builds \<^verbatim>\<open>media\<close> from \<^verbatim>\<open>req.file\<close>.\<close>

definition post_reports :: "(file_part \<Rightarrow> media) \<Rightarrow> world \<Rightarrow> request \<Rightarrow> file_part option \<Rightarrow> server \<Rightarrow> response \<times> server" where
  "post_reports med w req file s =
     (case Report_save w (body_description req) (body_location req) (map_option med file) s of
        (Inr doc, s1) \<Rightarrow> (json 201 (ReportJson doc), s1)
      | (Inl err, s1) \<Rightarrow> (json 500 (ErrorJson ''Server error''), s1))"

definition media_disk :: "world \<Rightarrow> file_part \<Rightarrow> media" where
  "media_disk w file = UploadsPath (now w) (originalname file)"

definition media_inline :: "file_part \<Rightarrow> media" where
  "media_inline file = DataUri (mimetype file) (content file)"

definition File_save :: "world \<Rightarrow> file_part \<Rightarrow> server \<Rightarrow> (js_error + file_doc) \<times> server" where
  "File_save w file s =
     (if originalname file = [] then (Inl (JsError ''File validation failed''), s)
      else
        (case store_fault w of
           Some err \<Rightarrow> (Inl err, emit (StoreSave ''File'') s)
         | None \<Rightarrow>
             (let doc = \<lparr>file_originalName = originalname file, file_size = size_bytes file,
                         file_mimetype = mimetype file, file_uploadDate = now w\<rparr>
              in (Inr doc, emit (StoreSave ''File'') (s\<lparr>files := files s @ [doc]\<rparr>)))))"

text \<open>Reading \<^verbatim>\<open>req.file.originalname\<close> when \<^verbatim>\<open>req.file\<close> is \<^verbatim>\<open>undefined\<close> throws this.\<close>

definition undefined_file :: js_error where
  "undefined_file = JsError (''Cannot read properties of undefined (reading '' @ [CHR 0x27] @ ''originalname'' @ [CHR 0x27] @ '')'')"

text \<open>The handler of \<^verbatim>\<open>POST /upload\<close> (lines 385--398): the catch answers with \<^verbatim>\<open>err.message\<close>.\<close>

definition post_upload :: "world \<Rightarrow> request \<Rightarrow> file_part option \<Rightarrow> server \<Rightarrow> response \<times> server" where
  "post_upload w req file s =
     (case (case file of None \<Rightarrow> (Inl undefined_file, s) | Some f \<Rightarrow> File_save w f s) of
        (Inr doc, s1) \<Rightarrow> (json 200 (MessageJson ''File metadata saved!''), s1)
      | (Inl err, s1) \<Rightarrow> (json 500 (ErrorJson (message err)), s1))"

text \<open>The error-handling middleware (lines 401--404), for an error handed to \<^verbatim>\<open>next\<close>.\<close>

definition error_middleware :: "js_error \<Rightarrow> response" where
  "error_middleware err = json 500 (ErrorJson ''Internal server error'')"

section \<open>Routes\<close>

definition alerts_route :: "world \<Rightarrow> request \<Rightarrow> server \<Rightarrow> response \<times> server" where
  "alerts_route w req s =
     (case authenticateToken w req of Inl r \<Rightarrow> (r, s) | Inr user \<Rightarrow> post_alerts w req s)"

definition checkins_route :: "world \<Rightarrow> request \<Rightarrow> server \<Rightarrow> response \<times> server" where
  "checkins_route w req s =
     (case authenticateToken w req of Inl r \<Rightarrow> (r, s) | Inr user \<Rightarrow> post_checkins w req s)"

text \<open>\<^verbatim>\<open>POST /api/reports\<close> of lines 321--331 (memory storage) and of lines 115--125 (disk storage).\<close>

definition reports_route :: "world \<Rightarrow> request \<Rightarrow> server \<Rightarrow> response \<times> server" where
  "reports_route w req s =
     (case authenticateToken w req of
        Inl r \<Rightarrow> (r, s)
      | Inr user \<Rightarrow>
          (case single upload ''media'' w req s of
             (Inl err, s1) \<Rightarrow> (error_middleware err, s1)
           | (Inr file, s1) \<Rightarrow> post_reports media_inline w req file s1))"

definition reports_route_disk :: "world \<Rightarrow> request \<Rightarrow> server \<Rightarrow> response \<times> server" where
  "reports_route_disk w req s =
     (case authenticateToken w req of
        Inl r \<Rightarrow> (r, s)
      | Inr user \<Rightarrow>
          (case single upload_disk ''media'' w req s of
             (Inl err, s1) \<Rightarrow> (error_middleware err, s1)
           | (Inr file, s1) \<Rightarrow> post_reports (media_disk w) w req file s1))"

definition upload_route :: "world \<Rightarrow> request \<Rightarrow> server \<Rightarrow> response \<times> server" where
  "upload_route w req s =
     (case single upload ''file'' w req s of
        (Inl err, s1) \<Rightarrow> (error_middleware err, s1)
      | (Inr file, s1) \<Rightarrow> post_upload w req file s1)"

text \<open>The routes of lines 290--398, by method and path; no route matching is Express's 404.\<close>

definition routes :: "world \<Rightarrow> request \<Rightarrow> server \<Rightarrow> response \<times> server" where
  "routes w req s =
     (if req_method req = POST \<and> path req = ''/api/login'' then post_login w req s
      else if req_method req = GET \<and> path req = ''/api/alerts'' then get_alerts w req s
      else if req_method req = POST \<and> path req = ''/api/alerts'' then alerts_route w req s
      else if req_method req = POST \<and> path req = ''/api/reports'' then reports_route w req s
      else if req_method req = GET \<and> path req = ''/api/resources'' then get_resources w req s
      else if req_method req = GET \<and> path req = ''/api/news'' then get_news w req s
      else if req_method req = POST \<and> path req = ''/api/checkins'' then checkins_route w req s
      else if req_method req = POST \<and> path req = ''/upload'' then upload_route w req s
      else (json 404 DefaultNotFound, s))"

section \<open>Rate limiter and response cache (lines 207--208)\<close>

definition windowMs :: nat where
  "windowMs = 15 * 60 * 1000"

definition max_requests :: nat where
  "max_requests = 100"

text \<open>
  Modelled from the spec: \<^verbatim>\<open>rateLimit\<close> belongs to the package \<^verbatim>\<open>express-rate-limit\<close>, which
  is not under \<^verbatim>\<open>src/\<close>; \<open>windowMs\<close> and \<open>max_requests\<close> are the options the source passes.
  The spec (sections 3, 4.2): one window \<open>{clientKey, windowStart, count}\<close> per client, created
  on the first request in a window and reset when the window elapses; each request
  increments the window's count; if the count exceeds the ceiling the request fails.
  The result is the new count of the client's window and the state with that window.
\<close>

definition hit :: "nat \<Rightarrow> (nat \<times> nat) option \<Rightarrow> nat \<times> nat" where
  "hit t win =
     (case win of
        None \<Rightarrow> (t, 1)
      | Some (start, n) \<Rightarrow> if t < start + windowMs then (start, n + 1) else (t, 1))"

definition rateLimit :: "world \<Rightarrow> request \<Rightarrow> server \<Rightarrow> bool \<times> server" where
  "rateLimit w req s =
     (let win = hit (now w) (rate_windows s (ip req))
      in (snd win \<le> max_requests, s\<lparr>rate_windows := (rate_windows s)(ip req \<mapsto> win)\<rparr>))"

definition too_many_requests :: response where
  "too_many_requests = json 429 (PlainText ''Too many requests, please try again later.'')"

definition ttl :: nat where
  "ttl = 5 * 60 * 1000"

text \<open>
  Modelled from the spec: \<^verbatim>\<open>cache\<close> is the middleware of the package \<^verbatim>\<open>apicache\<close>, which is
  not under \<^verbatim>\<open>src/\<close>; \<open>ttl\<close> is the duration the source passes. The spec (section 4.3): the
  key is the method, the path and the sorted query parameters; on a hit within the TTL the
  stored response is replayed and the handler does not execute; on a miss the handler
  executes and its successful response is stored, with the time of storage. Which requests
  reach the middleware is not part of it: that is the \<^verbatim>\<open>app.use\<close> of the source, in \<open>handle\<close>.
\<close>

definition cache_key_of :: "request \<Rightarrow> cache_key" where
  "cache_key_of req = (req_method req, path req, sort (query req))"

definition successful :: "response \<Rightarrow> bool" where
  "successful r = (200 \<le> status r \<and> status r < 300)"

definition cache_hit :: "world \<Rightarrow> request \<Rightarrow> server \<Rightarrow> response option" where
  "cache_hit w req s =
     (case cache_entries s (cache_key_of req) of
        None \<Rightarrow> None
      | Some (r, storedAt) \<Rightarrow> if now w < storedAt + ttl then Some r else None)"

definition cache :: "(world \<Rightarrow> request \<Rightarrow> server \<Rightarrow> response \<times> server) \<Rightarrow> world \<Rightarrow> request \<Rightarrow> server \<Rightarrow> response \<times> server" where
  "cache next w req s =
     (case cache_hit w req s of
        Some r \<Rightarrow> (r, s)
      | None \<Rightarrow>
          (case next w req s of
             (r, s1) \<Rightarrow>
               (r, if successful r
                   then s1\<lparr>cache_entries := (cache_entries s1)(cache_key_of req \<mapsto> (r, now w))\<rparr>
                   else s1)))"

text \<open>
  The pipeline in the order of the \<^verbatim>\<open>app.use\<close> calls: the limiter, then the cache, both
  mounted without a path or a method ahead of every route (lines 207--208), then the routes.
  A request is taken after \<^verbatim>\<open>cors\<close> and \<^verbatim>\<open>express.json\<close> (lines 205--206) have passed it on;
  the static files that lines 1--186 serve ahead of the limiter (line 20) are left out.
\<close>

definition handle :: "world \<Rightarrow> request \<Rightarrow> server \<Rightarrow> response \<times> server" where
  "handle w req s =
     (case rateLimit w req s of
        (False, s1) \<Rightarrow> (too_many_requests, s1)
      | (True, s1) \<Rightarrow> cache routes w req s1)"

text \<open>A burst: the requests of a list handled one after the other, each in its own world.\<close>

fun serve :: "(world \<times> request) list \<Rightarrow> server \<Rightarrow> response list \<times> server" where
  "serve [] s = ([], s)"
| "serve ((w, req) # rest) s =
     (case handle w req s of (r, s1) \<Rightarrow> (case serve rest s1 of (rs, s2) \<Rightarrow> (r # rs, s2)))"

section \<open>Observations and example inputs\<close>

text \<open>The events a handler added to the log between two states.\<close>

definition new_events :: "server \<Rightarrow> server \<Rightarrow> event list" where
  "new_events s s' = drop (length (trace s)) (trace s')"

text \<open>The limiter's verdict on each request of a burst (\<open>True\<close>: let through).\<close>

fun verdicts :: "(world \<times> request) list \<Rightarrow> server \<Rightarrow> bool list" where
  "verdicts [] s = []"
| "verdicts ((w, req) # rest) s = fst (rateLimit w req s) # verdicts rest (snd (handle w req s))"

text \<open>
  Whether a request of a burst comes from client \<open>c\<close>, and how many requests of \<open>c\<close> stand
  before position \<open>k\<close> of a burst.
\<close>

definition from_client :: "string \<Rightarrow> world \<times> request \<Rightarrow> bool" where
  "from_client c x = (ip (snd x) = c)"

definition earlier :: "string \<Rightarrow> (world \<times> request) list \<Rightarrow> nat \<Rightarrow> nat" where
  "earlier c burst k = length (filter (from_client c) (take k burst))"

text \<open>
  Case-insensitive substring match on ASCII text, as the spec words the resource filter:
  \<open>contains_ci x c\<close> holds when \<open>x\<close> contains \<open>c\<close>, letter case aside.
\<close>

definition toLowerCase :: "char \<Rightarrow> char" where
  "toLowerCase ch =
     (case map_of (zip ''ABCDEFGHIJKLMNOPQRSTUVWXYZ'' ''abcdefghijklmnopqrstuvwxyz'') ch of
        None \<Rightarrow> ch
      | Some l \<Rightarrow> l)"

definition contains_ci :: "string \<Rightarrow> string \<Rightarrow> bool" where
  "contains_ci x c = sublist (map toLowerCase c) (map toLowerCase x)"


text \<open>
  A regular expression engine for the example inputs. On a pattern made of ordinary ASCII
  characters and the wildcard \<^verbatim>\<open>.\<close> it is \<^verbatim>\<open>new RegExp(p, 'i').test\<close>: an unanchored search in
  which an ordinary character matches itself, letter case aside, and \<^verbatim>\<open>.\<close> matches any
  character but a line terminator. Every pattern with another syntax character it answers
  with a syntax error, as \<^verbatim>\<open>RegExp\<close> does for some of them; the examples use none.
\<close>

definition syntax_characters :: "char list" where
  "syntax_characters = ''^$*+?()[]{}|'' @ [CHR 0x5C]"

definition line_terminator :: "char \<Rightarrow> bool" where
  "line_terminator ch = (ch = CHR 0x0A \<or> ch = CHR 0x0D)"

fun match_here :: "string \<Rightarrow> string \<Rightarrow> bool" where
  "match_here [] x = True"
| "match_here (p # ps) [] = False"
| "match_here (p # ps) (ch # x) =
     ((if p = CHR ''.'' then \<not> line_terminator ch else toLowerCase p = toLowerCase ch) \<and> match_here ps x)"

fun search :: "string \<Rightarrow> string \<Rightarrow> bool" where
  "search p [] = match_here p []"
| "search p (ch # x) = (match_here p (ch # x) \<or> search p x)"

definition ascii_engine :: "string \<Rightarrow> js_error + (string \<Rightarrow> bool)" where
  "ascii_engine p =
     (if \<exists>ch \<in> set p. ch \<in> set syntax_characters then Inl (JsError ''Invalid regular expression'')
      else Inr (search p))"

text \<open>
  A world in which every collaborator answers: the geocoder knows the search texts
  \<^verbatim>\<open>Pune, India\<close> and \<^verbatim>\<open>., India\<close>, no SMS gateway is configured, the clock stands at 0.
\<close>

definition calm :: world where
  "calm = \<lparr>now = 0, env_JWT_SECRET = None, env_TWILIO_SID = None, env_TWILIO_PHONE = None,
     store_fault = None,
     nominatim = (\<lambda>q. Inr (if q = ''Pune, India'' then [''Pune''] else if q = ''., India'' then [''India''] else [])),
     regexp_i = ascii_engine, rss_feed = Inr [], twilio_fault = None\<rparr>"

definition blank :: request where
  "blank = \<lparr>req_method = GET, path = ''/api/resources'', query = [], ip = ''10.0.0.1'', authorization = None,
     body_username = None, body_password = None, body_title = None, body_message = None,
     body_description = None, body_location = None, body_phone = None, file_part = None\<rparr>"

definition elsewhere :: request where
  "elsewhere = blank\<lparr>ip := ''10.0.0.2''\<rparr>"

definition relief_camp :: resource where
  "relief_camp = \<lparr>resource_name = ''Relief camp'', resource_type = None, resource_address = None,
     resource_contact = None, resource_city = Some ''Delhi''\<rparr>"

definition blood_bank :: resource where
  "blood_bank = \<lparr>resource_name = ''Blood bank'', resource_type = None, resource_address = None,
     resource_contact = None, resource_city = Some ''PUNE''\<rparr>"

definition directory :: server where
  "directory = \<lparr>alerts = [], reports = [], resources = [relief_camp, blood_bank], checkins = [], files = [],
     rate_windows = Map.empty, cache_entries = Map.empty, trace = []\<rparr>"

text \<open>The document and the SMS that a check-in request asks for.\<close>

definition checkin_doc :: "request \<Rightarrow> checkin" where
  "checkin_doc req = \<lparr>checkin_message = the (body_message req), checkin_phone = the (body_phone req)\<rparr>"

definition checkin_sms :: "world \<Rightarrow> request \<Rightarrow> event" where
  "checkin_sms w req =
     SmsCreate (env_TWILIO_PHONE w) (the (body_phone req)) (''Safe Bharat Check-In: '' @ the (body_message req))"

text \<open>The fixed messages of the catch blocks (\<^verbatim>\<open>Server error\<close>, \<^verbatim>\<open>Error fetching news\<close>) and of the
  error-handling middleware.\<close>

definition generic_message :: "response \<Rightarrow> bool" where
  "generic_message r =
     (body r = ErrorJson ''Server error'' \<or> body r = ErrorJson ''Error fetching news''
      \<or> body r = ErrorJson ''Internal server error'')"

text \<open>
  Example requests: a login with the accepted pair; the token that login issues at time 0;
  a check-in, a report with a text file and an upload of a 1 MiB PNG, the first two with
  the token in the \<^verbatim>\<open>Authorization\<close> header.
\<close>

definition login_user :: request where
  "login_user = blank\<lparr>req_method := POST, path := ''/api/login'',
     body_username := Some ''user'', body_password := Some ''pass''\<rparr>"

definition bearer_user :: token where
  "bearer_user = Signed (Some ''user'') 0 3600 ''safebharatsecret''"

definition safe_checkin :: request where
  "safe_checkin = blank\<lparr>req_method := POST, path := ''/api/checkins'',
     authorization := Some [Malformed ''Bearer'', bearer_user],
     body_message := Some ''I am safe'', body_phone := Some ''+911234567890''\<rparr>"

definition safe_doc :: checkin where
  "safe_doc = \<lparr>checkin_message = ''I am safe'', checkin_phone = ''+911234567890''\<rparr>"

definition notes_txt :: file_part where
  "notes_txt = \<lparr>fieldname = ''media'', originalname = ''notes.txt'', mimetype = ''text/plain'',
     size_bytes = 12, content = ''hello, world''\<rparr>"

definition flood_report :: request where
  "flood_report = blank\<lparr>req_method := POST, path := ''/api/reports'',
     authorization := Some [Malformed ''Bearer'', bearer_user],
     body_description := Some ''Flooded road'', file_part := Some notes_txt\<rparr>"

definition flood_doc :: report where
  "flood_doc = \<lparr>report_description = ''Flooded road'', report_location = None,
     report_media = Some (UploadsPath 0 ''notes.txt'')\<rparr>"

definition photo_png :: file_part where
  "photo_png = \<lparr>fieldname = ''file'', originalname = ''photo.png'', mimetype = ''image/png'',
     size_bytes = 1024 * 1024, content = ''PNG''\<rparr>"

definition photo_upload :: request where
  "photo_upload = blank\<lparr>req_method := POST, path := ''/upload'', file_part := Some photo_png\<rparr>"

text \<open>
  Example worlds: one minute later; the store unreachable; an SMS gateway that is
  configured and fails.
\<close>

definition later :: world where
  "later = calm\<lparr>now := 60000\<rparr>"

definition outage :: world where
  "outage = calm\<lparr>store_fault := Some (JsError ''connect ECONNREFUSED 10.0.0.5:27017'')\<rparr>"

definition sms_down :: world where
  "sms_down = calm\<lparr>env_TWILIO_SID := Some ''AC0123'', env_TWILIO_PHONE := Some ''+15550100'',
     twilio_fault := Some (JsError ''gateway timeout'')\<rparr>"

section \<open>Basic facts\<close>

lemma emit_fields [simp]:
  "alerts (emit e s) = alerts s"
  "reports (emit e s) = reports s"
  "resources (emit e s) = resources s"
  "checkins (emit e s) = checkins s"
  "files (emit e s) = files s"
  "rate_windows (emit e s) = rate_windows s"
  "cache_entries (emit e s) = cache_entries s"
  "trace (emit e s) = trace s @ [e]"
  by (simp_all add: emit_def)

lemma new_events_emit: "new_events s (emit e s) = [e]"
  by (simp add: new_events_def)

lemma new_events_emit2: "new_events s (emit e2 (emit e1 s)) = [e1, e2]"
  by (simp add: new_events_def)

section \<open>Resource resolver\<close>

text \<open>
  Claim C1. A resource query whose city is present (the source's test \<^verbatim>\<open>!city\<close> is false: the
  parameter is there and not empty) and for which the geocoder returns zero matches is
  answered 404 \<^verbatim>\<open>City not found\<close>. The state afterwards is the state before with one event
  more, the request to the geocoder: the store is not read, whatever it holds.
\<close>

theorem resources_unknown_city_not_found:
  assumes "map_of (query req) ''city'' = Some c" and "c \<noteq> []"
    and "nominatim w (c @ '', India'') = Inr []"
  shows "get_resources w req s =
    (json 404 (ErrorJson ''City not found''), emit (NominatimSearch (c @ '', India'')) s)"
  using assms by (simp add: get_resources_def axios_get_nominatim_def)

text \<open>
  The geocoder does not know \<^verbatim>\<open>pun\<close>, although the store holds a resource of the city
  \<^verbatim>\<open>PUNE\<close>: the answer is 404 and the store is not read.
\<close>

theorem resources_unknown_city_not_found_witness:
  "get_resources calm (blank\<lparr>query := [(''city'', ''pun'')]\<rparr>) directory =
     (json 404 (ErrorJson ''City not found''), emit (NominatimSearch ''pun, India'') directory)
   \<and> contains_ci ''PUNE'' ''pun''"
proof -
  have present: "map_of (query (blank\<lparr>query := [(''city'', ''pun'')]\<rparr>)) ''city'' = Some ''pun''"
    by simp
  have unknown: "nominatim calm (''pun'' @ '', India'') = Inr []"
    by (simp add: calm_def)
  have held: "contains_ci ''PUNE'' ''pun''"
    by (simp add: contains_ci_def toLowerCase_def sublist_Cons_right)
  from resources_unknown_city_not_found [OF present _ unknown, of directory] held
  show ?thesis by simp
qed

text \<open>
  Whatever the city parameter is: when the handler did ask the geocoder and the answer had
  zero matches, the response is the 404 and that request is the only event.
\<close>

lemma zero_matches_always_not_found:
  assumes "NominatimSearch q \<in> set (new_events s (snd (get_resources w req s)))"
    and "nominatim w q = Inr []"
  shows "fst (get_resources w req s) = json 404 (ErrorJson ''City not found'')
    \<and> new_events s (snd (get_resources w req s)) = [NominatimSearch q]"
  using assms
  by (auto simp add: get_resources_def axios_get_nominatim_def Resource_find_def new_events_def
      Let_def split: if_splits sum.splits option.splits)

text \<open>
  Claim C4. When the city parameter is absent, the only event of the handler is one read of
  the resources: the geocoder is not called. When the store answers, the response is the
  first 100 resources of the store, unfiltered (all of them when there are fewer).
\<close>

theorem resources_absent_city_unfiltered:
  assumes "map_of (query req) ''city'' = None"
  shows "new_events s (snd (get_resources w req s)) = [StoreFind ''Resource'']
    \<and> (store_fault w = None \<longrightarrow>
         get_resources w req s =
           (json 200 (ResourcesJson (take 100 (resources s))), emit (StoreFind ''Resource'') s))"
  using assms
  by (simp add: get_resources_def Resource_find_def new_events_emit split: option.split)

theorem resources_absent_city_unfiltered_witness:
  "new_events directory (snd (get_resources calm blank directory)) = [StoreFind ''Resource'']
   \<and> get_resources calm blank directory =
       (json 200 (ResourcesJson [relief_camp, blood_bank]), emit (StoreFind ''Resource'') directory)"
proof -
  have absent: "map_of (query blank) ''city'' = None"
    by (simp add: blank_def)
  have up: "store_fault calm = None"
    by (simp add: calm_def)
  have all: "take 100 (resources directory) = [relief_camp, blood_bank]"
    by (simp add: directory_def)
  from resources_absent_city_unfiltered [OF absent, of directory calm] up
  show ?thesis unfolding all by blast
qed

text \<open>
  Claim C10. A city parameter that is present and empty is handled as an absent one: the
  result is the result of the same query without the parameter, the only event is the read
  of the resources (no request to the geocoder), the status is not 404, and when the store
  answers the response is the first 100 resources, unfiltered.
\<close>

theorem resources_empty_city_as_absent:
  assumes "map_of (query req) ''city'' = Some []"
    and "map_of (query req') ''city'' = None"
  shows "get_resources w req s = get_resources w req' s
    \<and> new_events s (snd (get_resources w req s)) = [StoreFind ''Resource'']
    \<and> status (fst (get_resources w req s)) \<noteq> 404
    \<and> (store_fault w = None \<longrightarrow>
         fst (get_resources w req s) = json 200 (ResourcesJson (take 100 (resources s))))"
  using assms
  by (simp add: get_resources_def Resource_find_def new_events_emit json_def split: option.split)

theorem resources_empty_city_as_absent_witness:
  "get_resources calm (blank\<lparr>query := [(''city'', [])]\<rparr>) directory = get_resources calm blank directory
   \<and> new_events directory (snd (get_resources calm (blank\<lparr>query := [(''city'', [])]\<rparr>) directory))
       = [StoreFind ''Resource'']
   \<and> fst (get_resources calm (blank\<lparr>query := [(''city'', [])]\<rparr>) directory)
       = json 200 (ResourcesJson [relief_camp, blood_bank])"
proof -
  have empty: "map_of (query (blank\<lparr>query := [(''city'', [])]\<rparr>)) ''city'' = Some []"
    by simp
  have absent: "map_of (query blank) ''city'' = None"
    by (simp add: blank_def)
  have up: "store_fault calm = None"
    by (simp add: calm_def)
  have all: "take 100 (resources directory) = [relief_camp, blood_bank]"
    by (simp add: directory_def)
  from resources_empty_city_as_absent [OF empty absent, of calm directory] up
  show ?thesis unfolding all by blast
qed




text \<open>
  Where the claim as stated and the code agree: on a pattern of ordinary characters the
  example engine's search is the case-insensitive substring test.
\<close>

lemma match_here_prefix:
  "CHR ''.'' \<notin> set p \<Longrightarrow> match_here p x = prefix (map toLowerCase p) (map toLowerCase x)"
  by (induction p x rule: match_here.induct) auto

lemma search_contains: "CHR ''.'' \<notin> set p \<Longrightarrow> search p x = contains_ci x p"
  unfolding contains_ci_def
  by (induction x) (auto simp: match_here_prefix sublist_Cons_right)

section \<open>Check-in notifier\<close>

lemma post_checkins_cases:
  "post_checkins w req s =
     (if \<not> (truthy (body_message req) \<and> truthy (body_phone req))
      then (json 500 (ErrorJson ''Server error''), s)
      else if store_fault w \<noteq> None
      then (json 500 (ErrorJson ''Server error''), emit (StoreSave ''Checkin'') s)
      else if \<not> twilioClient w
      then (json 201 (CheckinJson (checkin_doc req)),
            emit (StoreSave ''Checkin'') (s\<lparr>checkins := checkins s @ [checkin_doc req]\<rparr>))
      else (if twilio_fault w = None then json 201 (CheckinJson (checkin_doc req))
            else json 500 (ErrorJson ''Server error''),
            emit (checkin_sms w req)
              (emit (StoreSave ''Checkin'') (s\<lparr>checkins := checkins s @ [checkin_doc req]\<rparr>))))"
  by (auto simp add: post_checkins_def Checkin_save_def messages_create_def checkin_doc_def
      checkin_sms_def Let_def split: option.splits)

lemma new_events_checkins:
  "new_events s s = []"
  "new_events s (emit e (s\<lparr>checkins := cs\<rparr>)) = [e]"
  "new_events s (emit e2 (emit e1 (s\<lparr>checkins := cs\<rparr>))) = [e1, e2]"
  by (simp_all add: new_events_def)

text \<open>
  Claim C3. For every check-in submission: when an SMS was handed to the gateway, the events
  of the handler are the save of the check-in followed by that SMS, the record is in the
  store, the store had answered and a gateway is configured. When the record was saved and
  the configured gateway fails, the answer is a 500, and the record stays in the store: the
  handler has no step that removes it.
\<close>

theorem checkin_persist_then_notify:
  "(SmsCreate sender to text \<in> set (new_events s (snd (post_checkins w req s))) \<longrightarrow>
      new_events s (snd (post_checkins w req s)) = [StoreSave ''Checkin'', checkin_sms w req]
      \<and> checkins (snd (post_checkins w req s)) = checkins s @ [checkin_doc req]
      \<and> store_fault w = None \<and> twilioClient w)
   \<and> (truthy (body_message req) \<and> truthy (body_phone req) \<and> store_fault w = None
        \<and> twilioClient w \<and> twilio_fault w = Some err \<longrightarrow>
      fst (post_checkins w req s) = json 500 (ErrorJson ''Server error'')
      \<and> new_events s (snd (post_checkins w req s)) = [StoreSave ''Checkin'', checkin_sms w req]
      \<and> checkins (snd (post_checkins w req s)) = checkins s @ [checkin_doc req])"
  by (simp add: post_checkins_cases new_events_checkins new_events_emit checkin_sms_def)

theorem checkin_persist_then_notify_witness:
  "fst (post_checkins sms_down safe_checkin directory) = json 500 (ErrorJson ''Server error'')
   \<and> new_events directory (snd (post_checkins sms_down safe_checkin directory))
       = [StoreSave ''Checkin'',
          SmsCreate (Some ''+15550100'') ''+911234567890'' ''Safe Bharat Check-In: I am safe'']
   \<and> checkins (snd (post_checkins sms_down safe_checkin directory)) = [safe_doc]"
proof -
  have given: "truthy (body_message safe_checkin) \<and> truthy (body_phone safe_checkin)
      \<and> store_fault sms_down = None \<and> twilioClient sms_down
      \<and> twilio_fault sms_down = Some (JsError ''gateway timeout'')"
    by (simp add: safe_checkin_def sms_down_def calm_def twilioClient_def)
  have sms: "checkin_sms sms_down safe_checkin
      = SmsCreate (Some ''+15550100'') ''+911234567890'' ''Safe Bharat Check-In: I am safe''"
    by (simp add: checkin_sms_def safe_checkin_def sms_down_def)
  have doc: "checkins directory @ [checkin_doc safe_checkin] = [safe_doc]"
    by (simp add: checkin_doc_def safe_checkin_def safe_doc_def directory_def)
  from checkin_persist_then_notify
    [of _ _ _ directory sms_down safe_checkin "JsError ''gateway timeout''"] given
  show ?thesis unfolding sms doc by blast
qed

section \<open>Token service\<close>

text \<open>
  Claim C9. A login with the username \<^verbatim>\<open>user\<close> and the password \<^verbatim>\<open>pass\<close> is answered with a
  token signed for one hour (3600 seconds). A request that carries that token, while the
  signing secret is the same, passes \<open>authenticateToken\<close> at every time before the expiry,
  the time of the login included, and is answered 403 \<^verbatim>\<open>Invalid token\<close> from the expiry on.
  Any other pair is answered 401 \<^verbatim>\<open>Invalid credentials\<close>.
\<close>

theorem login_token_lifetime:
  "(body_username req = Some ''user'' \<and> body_password req = Some ''pass'' \<longrightarrow>
      post_login w req s =
        (json 200 (TokenJson (jwt_sign (Some ''user'') (signing_secret w) 3600 (seconds w))), s))
   \<and> (bearer req' = Some (jwt_sign (Some ''user'') (signing_secret w) 3600 (seconds w))
        \<and> signing_secret w' = signing_secret w \<longrightarrow>
          (seconds w' < seconds w + 3600 \<longrightarrow> authenticateToken w' req' = Inr (Some ''user''))
        \<and> (seconds w + 3600 \<le> seconds w' \<longrightarrow>
              authenticateToken w' req' = Inl (json 403 (ErrorJson ''Invalid token''))))
   \<and> (\<not> (body_username req = Some ''user'' \<and> body_password req = Some ''pass'') \<longrightarrow>
        post_login w req s = (json 401 (ErrorJson ''Invalid credentials''), s))"
  by (auto simp add: post_login_def authenticateToken_def jwt_sign_def)

theorem login_token_lifetime_witness:
  "post_login calm login_user directory = (json 200 (TokenJson bearer_user), directory)
   \<and> authenticateToken calm safe_checkin = Inr (Some ''user'')
   \<and> authenticateToken (calm\<lparr>now := 3600000\<rparr>) safe_checkin = Inl (json 403 (ErrorJson ''Invalid token''))
   \<and> post_login calm (login_user\<lparr>body_password := Some ''Pass''\<rparr>) directory
       = (json 401 (ErrorJson ''Invalid credentials''), directory)"
proof -
  have tok: "jwt_sign (Some ''user'') (signing_secret calm) 3600 (seconds calm) = bearer_user"
    by (simp add: jwt_sign_def signing_secret_def seconds_def calm_def bearer_user_def)
  have creds: "body_username login_user = Some ''user'' \<and> body_password login_user = Some ''pass''"
    by (simp add: login_user_def)
  have wrong: "\<not> (body_username (login_user\<lparr>body_password := Some ''Pass''\<rparr>) = Some ''user''
      \<and> body_password (login_user\<lparr>body_password := Some ''Pass''\<rparr>) = Some ''pass'')"
    by simp
  have sent: "bearer safe_checkin = Some bearer_user"
    by (simp add: bearer_def safe_checkin_def)
  have same: "signing_secret (calm\<lparr>now := 3600000\<rparr>) = signing_secret calm"
    by (simp add: signing_secret_def)
  have early: "seconds calm < seconds calm + 3600"
    by simp
  have late: "seconds calm + 3600 \<le> seconds (calm\<lparr>now := 3600000\<rparr>)"
    by (simp add: seconds_def calm_def)
  from login_token_lifetime [of login_user calm directory safe_checkin calm] creds sent early
  have a: "post_login calm login_user directory = (json 200 (TokenJson bearer_user), directory)"
    and b: "authenticateToken calm safe_checkin = Inr (Some ''user'')"
    unfolding tok by blast+
  from login_token_lifetime [of login_user calm directory safe_checkin "calm\<lparr>now := 3600000\<rparr>"]
    sent same late
  have c: "authenticateToken (calm\<lparr>now := 3600000\<rparr>) safe_checkin
      = Inl (json 403 (ErrorJson ''Invalid token''))"
    unfolding tok by blast
  from login_token_lifetime [of "login_user\<lparr>body_password := Some ''Pass''\<rparr>" calm directory] wrong
  have d: "post_login calm (login_user\<lparr>body_password := Some ''Pass''\<rparr>) directory
       = (json 401 (ErrorJson ''Invalid credentials''), directory)"
    by blast
  from a b c d show ?thesis by blast
qed

section \<open>Upload handler\<close>

text \<open>
  Claim C6 at the upload configuration of lines 61--67, which has neither a file filter
  nor a size limit: a report that carries a file of declared type \<^verbatim>\<open>text/plain\<close> is answered
  201, the file is written under \<^verbatim>\<open>./uploads/\<close> and the report is saved with its path.
\<close>

theorem upload_disk_accepts_text_plain:
  "mimetype notes_txt = ''text/plain''
   \<and> reports_route_disk calm flood_report directory =
       (json 201 (ReportJson flood_doc),
        directory\<lparr>reports := [flood_doc], trace := [DiskWrite 0 ''notes.txt'', StoreSave ''Report'']\<rparr>)"
  by (simp add: reports_route_disk_def authenticateToken_def bearer_def signing_secret_def seconds_def
      single_def upload_disk_def post_reports_def Report_save_def media_disk_def emit_def json_def
      calm_def blank_def flood_report_def flood_doc_def bearer_user_def directory_def notes_txt_def Let_def)

text \<open>
  The configuration of lines 261--271 does what the claim says: a file whose declared type
  is neither an image type nor PDF, or whose size exceeds 5 MiB, is an error of the
  middleware; both routes that use it then answer through the error-handling middleware
  with the state untouched, so their handlers do not run. A 1 MiB PNG is saved.
\<close>

lemma upload_rejects:
  assumes "file_part req = Some file"
    and "\<not> (startsWith (mimetype file) ''image/'' \<or> mimetype file = ''application/pdf'')
         \<or> 5 * 1024 * 1024 < size_bytes file"
  shows "\<exists>err. single upload field w req s = (Inl err, s)"
  using assms by (auto simp add: single_def upload_def upload_fileFilter_def)

lemma upload_route_rejects:
  assumes "file_part req = Some file"
    and "\<not> (startsWith (mimetype file) ''image/'' \<or> mimetype file = ''application/pdf'')
         \<or> 5 * 1024 * 1024 < size_bytes file"
  shows "upload_route w req s = (json 500 (ErrorJson ''Internal server error''), s)"
  using upload_rejects [OF assms, of "''file''" w s]
  by (auto simp add: upload_route_def error_middleware_def)

lemma reports_route_rejects:
  assumes "authenticateToken w req = Inr user"
    and "file_part req = Some file"
    and "\<not> (startsWith (mimetype file) ''image/'' \<or> mimetype file = ''application/pdf'')
         \<or> 5 * 1024 * 1024 < size_bytes file"
  shows "reports_route w req s = (json 500 (ErrorJson ''Internal server error''), s)"
  using upload_rejects [OF assms(2,3), of "''media''" w s] assms(1)
  by (auto simp add: reports_route_def error_middleware_def)

lemma upload_png_succeeds:
  "upload_route calm photo_upload directory =
     (json 200 (MessageJson ''File metadata saved!''),
      directory\<lparr>files := [\<lparr>file_originalName = ''photo.png'', file_size = 1048576,
          file_mimetype = ''image/png'', file_uploadDate = 0\<rparr>],
        trace := [StoreSave ''File'']\<rparr>)"
  by (simp add: upload_route_def single_def upload_def upload_fileFilter_def startsWith_def
      post_upload_def File_save_def emit_def json_def calm_def blank_def photo_upload_def
      photo_png_def directory_def Let_def)

section \<open>Error responses\<close>

lemma json_fields [simp]: "status (json c b) = c" "body (json c b) = b"
  by (simp_all add: json_def)

text \<open>
  Claim C7 at \<^verbatim>\<open>POST /upload\<close>, whose catch block answers with \<^verbatim>\<open>err.message\<close> (line 396):
  with the store unreachable the driver's message is the body of the 500, and without a
  file part the message of the \<^verbatim>\<open>TypeError\<close> is.
\<close>

theorem upload_answers_error_message:
  "upload_route outage photo_upload directory =
     (json 500 (ErrorJson ''connect ECONNREFUSED 10.0.0.5:27017''), emit (StoreSave ''File'') directory)
   \<and> upload_route calm (blank\<lparr>req_method := POST, path := ''/upload''\<rparr>) directory =
     (json 500 (ErrorJson (message undefined_file)), directory)
   \<and> \<not> generic_message (json 500 (ErrorJson ''connect ECONNREFUSED 10.0.0.5:27017''))"
  by (simp add: upload_route_def single_def upload_def upload_fileFilter_def startsWith_def
      post_upload_def File_save_def generic_message_def calm_def blank_def photo_upload_def
      photo_png_def outage_def Let_def)

text \<open>Every other route answers a 500 with one of the fixed messages.\<close>

lemma authenticateToken_status: "authenticateToken w req = Inl r \<Longrightarrow> status r \<noteq> 500"
  by (auto simp add: authenticateToken_def split: if_splits sum.splits)

lemma post_login_generic:
  "status (fst (post_login w req s)) = 500 \<Longrightarrow> generic_message (fst (post_login w req s))"
  by (simp add: post_login_def split: if_splits)

lemma get_alerts_generic:
  "status (fst (get_alerts w req s)) = 500 \<Longrightarrow> generic_message (fst (get_alerts w req s))"
  by (simp add: get_alerts_def Alert_find_newest_def generic_message_def split: option.splits)

lemma post_alerts_generic:
  "status (fst (post_alerts w req s)) = 500 \<Longrightarrow> generic_message (fst (post_alerts w req s))"
  by (simp add: post_alerts_def Alert_save_def generic_message_def Let_def split: option.splits if_splits)

lemma post_reports_generic:
  "status (fst (post_reports med w req got s)) = 500 \<Longrightarrow> generic_message (fst (post_reports med w req got s))"
  by (simp add: post_reports_def Report_save_def generic_message_def Let_def split: option.splits if_splits)

lemma get_resources_generic:
  "status (fst (get_resources w req s)) = 500 \<Longrightarrow> generic_message (fst (get_resources w req s))"
  by (simp add: get_resources_def axios_get_nominatim_def Resource_find_def generic_message_def Let_def
      split: option.splits if_splits sum.splits)

lemma get_news_generic:
  "status (fst (get_news w req s)) = 500 \<Longrightarrow> generic_message (fst (get_news w req s))"
  by (simp add: get_news_def generic_message_def split: sum.splits)

lemma post_checkins_generic:
  "status (fst (post_checkins w req s)) = 500 \<Longrightarrow> generic_message (fst (post_checkins w req s))"
  by (simp add: post_checkins_cases generic_message_def split: if_splits)

lemma alerts_route_generic:
  "status (fst (alerts_route w req s)) = 500 \<Longrightarrow> generic_message (fst (alerts_route w req s))"
  by (cases "authenticateToken w req")
    (auto simp add: alerts_route_def post_alerts_generic dest: authenticateToken_status)

lemma checkins_route_generic:
  "status (fst (checkins_route w req s)) = 500 \<Longrightarrow> generic_message (fst (checkins_route w req s))"
  by (cases "authenticateToken w req")
    (auto simp add: checkins_route_def post_checkins_generic dest: authenticateToken_status)

lemma reports_route_generic:
  assumes five: "status (fst (reports_route w req s)) = 500"
  shows "generic_message (fst (reports_route w req s))"
proof (cases "authenticateToken w req")
  case (Inl r)
  with five show ?thesis
    by (auto simp add: reports_route_def dest: authenticateToken_status)
next
  case (Inr user)
  obtain res s1 where m: "single upload ''media'' w req s = (res, s1)"
    by (cases "single upload ''media'' w req s")
  show ?thesis
  proof (cases res)
    case (Inl err)
    with Inr m show ?thesis
      by (simp add: reports_route_def error_middleware_def generic_message_def)
  next
    case (Inr got)
    with \<open>authenticateToken w req = Inr user\<close> m five show ?thesis
      by (simp add: reports_route_def post_reports_generic)
  qed
qed

lemma other_routes_generic:
  assumes "\<not> (req_method req = POST \<and> path req = ''/upload'')"
    and "status (fst (routes w req s)) = 500"
  shows "generic_message (fst (routes w req s))"
  using assms
  by (simp add: routes_def post_login_generic get_alerts_generic alerts_route_generic
      reports_route_generic get_resources_generic get_news_generic checkins_route_generic
      split: if_splits)

section \<open>Rate limiter\<close>

text \<open>Only the limiter writes the windows: no route and no cache step changes them.\<close>

lemma get_resources_windows: "rate_windows (snd (get_resources w req s)) = rate_windows s"
  by (simp add: get_resources_def axios_get_nominatim_def Resource_find_def Let_def
      split: sum.split option.split)

lemma post_login_windows: "rate_windows (snd (post_login w req s)) = rate_windows s"
  by (simp add: post_login_def)

lemma get_alerts_windows: "rate_windows (snd (get_alerts w req s)) = rate_windows s"
  by (simp add: get_alerts_def Alert_find_newest_def split: option.split)

lemma get_news_windows: "rate_windows (snd (get_news w req s)) = rate_windows s"
  by (simp add: get_news_def split: sum.split)

lemma alerts_route_windows: "rate_windows (snd (alerts_route w req s)) = rate_windows s"
  by (simp add: alerts_route_def post_alerts_def Alert_save_def Let_def split: sum.split option.split)

lemma checkins_route_windows: "rate_windows (snd (checkins_route w req s)) = rate_windows s"
  by (simp add: checkins_route_def post_checkins_cases split: sum.split)

lemma single_windows: "rate_windows (snd (single cfg field w req s)) = rate_windows s"
  by (simp add: single_def split: option.split sum.split bool.split)

lemma post_reports_windows: "rate_windows (snd (post_reports med w req got s)) = rate_windows s"
  by (simp add: post_reports_def Report_save_def Let_def split: option.split)

lemma post_upload_windows: "rate_windows (snd (post_upload w req got s)) = rate_windows s"
  by (simp add: post_upload_def File_save_def Let_def split: option.split)

lemma reports_route_windows: "rate_windows (snd (reports_route w req s)) = rate_windows s"
  using single_windows [of upload "''media''" w req s]
  by (auto simp add: reports_route_def post_reports_windows split: sum.split prod.split)

lemma upload_route_windows: "rate_windows (snd (upload_route w req s)) = rate_windows s"
  using single_windows [of upload "''file''" w req s]
  by (auto simp add: upload_route_def post_upload_windows split: sum.split prod.split)

lemma routes_windows: "rate_windows (snd (routes w req s)) = rate_windows s"
  by (simp add: routes_def post_login_windows get_alerts_windows alerts_route_windows
      reports_route_windows get_resources_windows get_news_windows checkins_route_windows
      upload_route_windows)

lemma cache_windows: "rate_windows (snd (cache routes w req s)) = rate_windows s"
  using routes_windows [of w req s]
  by (auto simp add: cache_def split: option.split prod.split)

lemma handle_windows:
  "rate_windows (snd (handle w req s))
     = (rate_windows s)(ip req \<mapsto> hit (now w) (rate_windows s (ip req)))"
  by (auto simp add: handle_def rateLimit_def Let_def cache_windows split: prod.split bool.split)

lemma serve_Cons_fst:
  "fst (serve ((w, req) # rest) s) = fst (handle w req s) # fst (serve rest (snd (handle w req s)))"
  by (simp split: prod.split)

lemma serve_Cons_snd:
  "snd (serve ((w, req) # rest) s) = snd (serve rest (snd (handle w req s)))"
  by (simp split: prod.split)

text \<open>
  Inside a live window every request of the client counts, let through or not, and the
  requests of other clients do not.
\<close>

lemma earlier_Cons:
  "earlier c (x # burst) 0 = 0"
  "earlier c (x # burst) (Suc j) = (if from_client c x then Suc (earlier c burst j) else earlier c burst j)"
  by (simp_all add: earlier_def)

lemma burst_in_window:
  assumes "\<forall>(w, req) \<in> set burst. ip req = c \<longrightarrow> now w < start + windowMs"
    and "rate_windows s c = Some (start, n)"
  shows "(\<forall>k < length burst. from_client c (burst ! k) \<longrightarrow>
            verdicts burst s ! k = (n + earlier c burst k < max_requests))
       \<and> rate_windows (snd (serve burst s)) c = Some (start, n + length (filter (from_client c) burst))"
  using assms
proof (induction burst arbitrary: s n)
  case Nil
  then show ?case by simp
next
  case (Cons x burst)
  obtain w req where x: "x = (w, req)" by (cases x)
  have rest: "\<forall>(w, req) \<in> set burst. ip req = c \<longrightarrow> now w < start + windowMs"
    using Cons.prems(1) by simp
  show ?case
  proof (cases "ip req = c")
    case True
    with Cons.prems x have live: "now w < start + windowMs" by auto
    have win: "rate_windows (snd (handle w req s)) c = Some (start, Suc n)"
      using True live Cons.prems(2) by (simp add: handle_windows hit_def)
    note IH = Cons.IH [OF rest win]
    have v0: "fst (rateLimit w req s) = (n < max_requests)"
      using True live Cons.prems(2) by (auto simp add: rateLimit_def hit_def Let_def)
    have mine: "from_client c x" using True x by (simp add: from_client_def)
    show ?thesis
    proof (intro conjI allI impI)
      fix k assume "k < length (x # burst)" and "from_client c ((x # burst) ! k)"
      then show "verdicts (x # burst) s ! k = (n + earlier c (x # burst) k < max_requests)"
        using IH v0 x mine by (cases k) (auto simp add: earlier_Cons)
    next
      show "rate_windows (snd (serve (x # burst) s)) c
          = Some (start, n + length (filter (from_client c) (x # burst)))"
        using IH x mine by (simp add: serve_Cons_snd del: serve.simps)
    qed
  next
    case False
    have win: "rate_windows (snd (handle w req s)) c = Some (start, n)"
      using False Cons.prems(2) by (simp add: handle_windows)
    note IH = Cons.IH [OF rest win]
    have other: "\<not> from_client c x" using False x by (simp add: from_client_def)
    show ?thesis
    proof (intro conjI allI impI)
      fix k assume "k < length (x # burst)" and "from_client c ((x # burst) ! k)"
      then show "verdicts (x # burst) s ! k = (n + earlier c (x # burst) k < max_requests)"
        using IH x other by (cases k) (auto simp add: earlier_Cons)
    next
      show "rate_windows (snd (serve (x # burst) s)) c
          = Some (start, n + length (filter (from_client c) (x # burst)))"
        using IH x other by (simp add: serve_Cons_snd del: serve.simps)
    qed
  qed
qed

lemma serve_rejected:
  "k < length burst \<Longrightarrow> \<not> verdicts burst s ! k \<Longrightarrow> fst (serve burst s) ! k = too_many_requests"
proof (induction burst arbitrary: s k)
  case Nil
  then show ?case by simp
next
  case (Cons x burst)
  obtain w req where x: "x = (w, req)" by (cases x)
  show ?case
  proof (cases k)
    case 0
    with Cons.prems x have "\<not> fst (rateLimit w req s)" by simp
    then have "fst (handle w req s) = too_many_requests"
      by (cases "rateLimit w req s") (auto simp add: handle_def)
    with 0 x show ?thesis by (simp add: serve_Cons_fst del: serve.simps)
  next
    case (Suc j)
    with Cons.prems x have "j < length burst" and "\<not> verdicts burst (snd (handle w req s)) ! j"
      by simp_all
    from Cons.IH [OF this] Suc x show ?thesis by (simp add: serve_Cons_fst del: serve.simps)
  qed
qed

lemma fresh_first:
  assumes "case rate_windows s (ip req) of None \<Rightarrow> True | Some (start, n) \<Rightarrow> start + windowMs \<le> now w"
  shows "hit (now w) (rate_windows s (ip req)) = (now w, 1)"
  using assms by (auto simp add: hit_def split: option.splits)

text \<open>
  Claim C8. The ceiling is 100 and the window 15 minutes (900000 ms). Take a client \<open>c\<close> with
  no live window, a first request of \<open>c\<close>, and any requests after it, of \<open>c\<close> and of other
  clients, those of \<open>c\<close> all earlier than one window after the first. A request of \<open>c\<close> is
  let through by the limiter exactly when fewer than 100 requests of \<open>c\<close> stand before it,
  and each request of \<open>c\<close> beyond the hundredth is answered with the 429 response. Whenever
  the limiter does not let a request through, the answer is that response and the state
  afterwards is the state before with only the client's window counted up: no cache step
  and no route ran. Once a window has passed since the first request, a request of \<open>c\<close> is
  let through to the cache and the routes again.
\<close>

theorem rate_limit_fixed_window:
  assumes first: "ip req0 = c"
    and fresh: "case rate_windows s c of None \<Rightarrow> True | Some (start, n) \<Rightarrow> start + windowMs \<le> now w0"
    and burst: "\<forall>(w, req) \<in> set rest. ip req = c \<longrightarrow> now w < now w0 + windowMs"
  shows "max_requests = 100 \<and> windowMs = 900000
    \<and> (\<forall>k < length ((w0, req0) # rest). from_client c (((w0, req0) # rest) ! k) \<longrightarrow>
          verdicts ((w0, req0) # rest) s ! k = (earlier c ((w0, req0) # rest) k < max_requests)
          \<and> (max_requests \<le> earlier c ((w0, req0) # rest) k \<longrightarrow>
                fst (serve ((w0, req0) # rest) s) ! k = too_many_requests))
    \<and> (\<forall>w1 req1 s1. \<not> fst (rateLimit w1 req1 s1) \<longrightarrow>
          handle w1 req1 s1
            = (too_many_requests, s1\<lparr>rate_windows := rate_windows (snd (rateLimit w1 req1 s1))\<rparr>))
    \<and> (\<forall>w2 req2. ip req2 = c \<and> now w0 + windowMs \<le> now w2 \<longrightarrow>
          fst (rateLimit w2 req2 (snd (serve ((w0, req0) # rest) s)))
          \<and> handle w2 req2 (snd (serve ((w0, req0) # rest) s))
              = cache routes w2 req2 (snd (rateLimit w2 req2 (snd (serve ((w0, req0) # rest) s)))))"
proof -
  have hit0: "hit (now w0) (rate_windows s c) = (now w0, 1)"
    using fresh_first [where s = s and req = req0 and w = w0] fresh first by simp
  have win: "rate_windows (snd (handle w0 req0 s)) c = Some (now w0, 1)"
    using first hit0 by (simp add: handle_windows)
  note tail = burst_in_window [OF burst win]
  have v0: "fst (rateLimit w0 req0 s)"
    using first hit0 by (simp add: rateLimit_def Let_def max_requests_def)
  have mine: "from_client c (w0, req0)"
    using first by (simp add: from_client_def)
  have verdict: "verdicts ((w0, req0) # rest) s ! k = (earlier c ((w0, req0) # rest) k < max_requests)"
    if "k < length ((w0, req0) # rest)" and "from_client c (((w0, req0) # rest) ! k)" for k
    using that tail v0 mine by (cases k) (auto simp add: earlier_Cons max_requests_def)
  have counted: "\<forall>k < length ((w0, req0) # rest). from_client c (((w0, req0) # rest) ! k) \<longrightarrow>
          verdicts ((w0, req0) # rest) s ! k = (earlier c ((w0, req0) # rest) k < max_requests)
          \<and> (max_requests \<le> earlier c ((w0, req0) # rest) k \<longrightarrow>
                fst (serve ((w0, req0) # rest) s) ! k = too_many_requests)"
  proof (intro allI impI conjI)
    fix k assume k: "k < length ((w0, req0) # rest)" and c: "from_client c (((w0, req0) # rest) ! k)"
    show "verdicts ((w0, req0) # rest) s ! k = (earlier c ((w0, req0) # rest) k < max_requests)"
      using verdict [OF k c] .
    assume "max_requests \<le> earlier c ((w0, req0) # rest) k"
    with verdict [OF k c] have "\<not> verdicts ((w0, req0) # rest) s ! k" by simp
    from serve_rejected [OF k this]
    show "fst (serve ((w0, req0) # rest) s) ! k = too_many_requests" .
  qed
  have after: "rate_windows (snd (serve ((w0, req0) # rest) s)) c
      = Some (now w0, 1 + length (filter (from_client c) rest))"
    using tail by (simp add: serve_Cons_snd del: serve.simps)
  have short: "\<forall>w1 req1 s1. \<not> fst (rateLimit w1 req1 s1) \<longrightarrow>
          handle w1 req1 s1
            = (too_many_requests, s1\<lparr>rate_windows := rate_windows (snd (rateLimit w1 req1 s1))\<rparr>)"
    by (simp add: handle_def rateLimit_def Let_def)
  have again: "\<forall>w2 req2. ip req2 = c \<and> now w0 + windowMs \<le> now w2 \<longrightarrow>
          fst (rateLimit w2 req2 (snd (serve ((w0, req0) # rest) s)))
          \<and> handle w2 req2 (snd (serve ((w0, req0) # rest) s))
              = cache routes w2 req2 (snd (rateLimit w2 req2 (snd (serve ((w0, req0) # rest) s))))"
    using after
    by (auto simp add: handle_def rateLimit_def hit_def Let_def max_requests_def simp del: serve.simps)
  have limits: "max_requests = 100 \<and> windowMs = 900000"
    by (simp add: max_requests_def windowMs_def)
  from limits counted short again show ?thesis by blast
qed

text \<open>
  One client sends a request at time 0 and a hundred more a minute later, with a request
  of another client in between: its hundredth request is let through, its next one is
  answered 429, and after 15 minutes it is let through again.
\<close>

theorem rate_limit_fixed_window_witness:
  "verdicts ((calm, blank) # (calm, elsewhere) # replicate 100 (later, blank)) directory ! 100
   \<and> \<not> verdicts ((calm, blank) # (calm, elsewhere) # replicate 100 (later, blank)) directory ! 101
   \<and> fst (serve ((calm, blank) # (calm, elsewhere) # replicate 100 (later, blank)) directory) ! 101
       = too_many_requests
   \<and> fst (rateLimit (calm\<lparr>now := 900000\<rparr>) blank
          (snd (serve ((calm, blank) # (calm, elsewhere) # replicate 100 (later, blank)) directory)))"
proof -
  let ?rest = "(calm, elsewhere) # replicate 100 (later, blank)"
  have ip: "ip blank = ''10.0.0.1''"
    by (simp add: blank_def)
  have fresh: "case rate_windows directory ''10.0.0.1'' of None \<Rightarrow> True
      | Some (start, n) \<Rightarrow> start + windowMs \<le> now calm"
    by (simp add: directory_def)
  have burst: "\<forall>(w, req) \<in> set ?rest. ip req = ''10.0.0.1'' \<longrightarrow> now w < now calm + windowMs"
    by (simp add: calm_def later_def windowMs_def elsewhere_def)
  have t: "now calm + windowMs \<le> now (calm\<lparr>now := 900000\<rparr>)"
    by (simp add: calm_def windowMs_def)
  have mine: "from_client ''10.0.0.1'' (calm, blank)" "from_client ''10.0.0.1'' (later, blank)"
    and other: "\<not> from_client ''10.0.0.1'' (calm, elsewhere)"
    by (simp_all add: from_client_def ip elsewhere_def)
  have at100: "((calm, blank) # ?rest) ! 100 = (later, blank)"
    and at101: "((calm, blank) # ?rest) ! 101 = (later, blank)"
    by (simp_all add: nth_Cons')
  have before100: "earlier ''10.0.0.1'' ((calm, blank) # ?rest) 100 = 99"
    and before101: "earlier ''10.0.0.1'' ((calm, blank) # ?rest) 101 = 100"
    by (simp_all add: earlier_def mine other take_Cons')
  have len: "(100::nat) < length ((calm, blank) # ?rest)" "(101::nat) < length ((calm, blank) # ?rest)"
    by simp_all
  note inst = rate_limit_fixed_window [OF ip fresh burst]
  from inst have ceiling: "max_requests = 100"
    by blast
  from inst len(1) mine(2) at100 before100
  have a: "verdicts ((calm, blank) # ?rest) directory ! 100 = (99 < max_requests)"
    by metis
  from inst len(2) mine(2) at101 before101
  have b: "verdicts ((calm, blank) # ?rest) directory ! 101 = (100 < max_requests)"
    and c: "max_requests \<le> 100 \<longrightarrow> fst (serve ((calm, blank) # ?rest) directory) ! 101 = too_many_requests"
    by metis+
  from inst ip t have d: "fst (rateLimit (calm\<lparr>now := 900000\<rparr>) blank
      (snd (serve ((calm, blank) # ?rest) directory)))"
    by blast
  from a b c d show ?thesis unfolding ceiling by simp
qed

section \<open>Response cache\<close>

lemma cache_hit_rateLimit: "cache_hit w req (snd (rateLimit w' req' s)) = cache_hit w req s"
  by (simp add: cache_hit_def rateLimit_def Let_def)

lemma handle_hit:
  assumes "fst (rateLimit w req s)" and "cache_hit w req s = Some r"
  shows "handle w req s = (r, snd (rateLimit w req s))"
proof (cases "rateLimit w req s")
  case (Pair ok s1)
  with assms(1) have ok by simp
  moreover from Pair have "s1 = snd (rateLimit w req s)" by simp
  then have "cache_hit w req s1 = Some r" using assms(2) by (simp add: cache_hit_rateLimit)
  ultimately show ?thesis using Pair by (simp add: handle_def cache_def)
qed



lemma first_login:
  "handle calm login_user directory =
     (json 200 (TokenJson bearer_user),
      directory\<lparr>rate_windows := [''10.0.0.1'' \<mapsto> (0, 1)],
        cache_entries := [(POST, ''/api/login'', []) \<mapsto> (json 200 (TokenJson bearer_user), 0)]\<rparr>)"
  by (simp add: handle_def rateLimit_def hit_def cache_def cache_hit_def cache_key_of_def routes_def
      post_login_def jwt_sign_def signing_secret_def seconds_def successful_def json_def
      calm_def blank_def login_user_def bearer_user_def directory_def max_requests_def Let_def)


text \<open>
  The same holds for the login: after a login with the accepted pair, a login with a wrong
  password within the TTL is answered with the stored 200 and its token, where the route
  itself answers 401.
\<close>

lemma login_replayed_from_cache:
  "post_login later (login_user\<lparr>body_password := Some ''guess''\<rparr>) (snd (handle calm login_user directory))
     = (json 401 (ErrorJson ''Invalid credentials''), snd (handle calm login_user directory))
   \<and> fst (handle later (login_user\<lparr>body_password := Some ''guess''\<rparr>) (snd (handle calm login_user directory)))
     = json 200 (TokenJson bearer_user)"
proof -
  let ?guess = "login_user\<lparr>body_password := Some ''guess''\<rparr>"
  have ip: "ip ?guess = ''10.0.0.1''"
    and key: "cache_key_of ?guess = (POST, ''/api/login'', [])"
    by (simp_all add: login_user_def blank_def cache_key_of_def)
  have t: "now later = 60000"
    by (simp add: later_def)
  have h: "cache_hit later ?guess (snd (handle calm login_user directory)) = Some (json 200 (TokenJson bearer_user))"
    unfolding first_login by (simp add: cache_hit_def key t ttl_def)
  have ok: "fst (rateLimit later ?guess (snd (handle calm login_user directory)))"
    unfolding first_login by (simp add: rateLimit_def hit_def ip t windowMs_def max_requests_def)
  have direct: "post_login later ?guess (snd (handle calm login_user directory))
     = (json 401 (ErrorJson ''Invalid credentials''), snd (handle calm login_user directory))"
    by (simp add: post_login_def login_user_def)
  from handle_hit [OF ok h] direct show ?thesis by simp
qed



end
